theory Spec2Isabelle
  imports Main "HOL-Library.Word"
begin

section \<open>Result codes, interface tags and identifiers\<close>

text \<open>
  The \<open>tresult\<close> codes of the VST3 interface that the proxy code returns. The numeric
  values live in the plugin SDK; the code under study only names them and compares them,
  so they are modelled as an enumeration.
\<close>

datatype tresult =
    kNoInterface
  | kResultOk
  | kResultFalse
  | kInvalidArgument
  | kNotImplemented
  | kInternalError
  | kNotInitialized
  | kOutOfMemory

text \<open>
  Modelled from the spec: \<open>UniversalTResult\<close> is declared elsewhere in the repository. The
  spec calls it "a status code"; it is the serialisable wrapper of a \<open>tresult\<close>, and its
  implicit conversion back to \<open>tresult\<close> (used by \<open>createInstance\<close>) keeps the code.
\<close>

datatype UniversalTResult = UniversalTResult tresult

fun to_native :: "UniversalTResult \<Rightarrow> tresult" where
  "to_native (UniversalTResult code) = code"

text \<open>
  The interfaces \<open>Vst3PluginProxy\<close> derives from (through its twenty-two \<open>Ya*\<close> bases),
  in the order of the class declaration in \<open>plugin-proxy.h\<close>, and \<open>FUnknown\<close>, the root
  interface every one of them extends.
\<close>

datatype interface =
    FUnknown
  | IAudioPresentationLatency
  | IAudioProcessor
  | IAutomationState
  | IComponent
  | IConnectionPoint
  | IEditController
  | IEditController2
  | IEditControllerHostEditing
  | IInfoListener
  | IKeyswitchController
  | IMidiLearn
  | IMidiMapping
  | INoteExpressionController
  | INoteExpressionPhysicalUIMapping
  | IParameterFunctionName
  | IPluginBase
  | IPrefetchableSupport
  | IProcessContextRequirements
  | IProgramListData
  | IUnitData
  | IUnitInfo
  | IXmlRepresentationController

text \<open>The closed catalogue of capabilities: one per base class of the proxy.\<close>

definition catalogue :: "interface list" where
  "catalogue =
     [IAudioPresentationLatency, IAudioProcessor, IAutomationState, IComponent,
      IConnectionPoint, IEditController, IEditController2, IEditControllerHostEditing,
      IInfoListener, IKeyswitchController, IMidiLearn, IMidiMapping,
      INoteExpressionController, INoteExpressionPhysicalUIMapping,
      IParameterFunctionName, IPluginBase, IPrefetchableSupport,
      IProcessContextRequirements, IProgramListData, IUnitData, IUnitInfo,
      IXmlRepresentationController]"

text \<open>
  A \<open>TUID\<close> is an array of sixteen bytes and a \<open>FIDString\<close> points at one: the memory
  behind the pointer is a list of bytes. \<open>FUnknownPrivate::iidEqual\<close> compares the first
  sixteen bytes of its two arguments.
\<close>

type_synonym byte = "8 word"
type_synonym tuid = "byte list"

definition uid_size :: nat where
  "uid_size = 16"

definition iidEqual :: "tuid \<Rightarrow> tuid \<Rightarrow> bool" where
  "iidEqual iid1 iid2 \<longleftrightarrow> take uid_size iid1 = take uid_size iid2"

text \<open>\<open>size_t\<close> and \<open>native_size_t\<close> on the 64-bit target.\<close>

type_synonym size_t = "64 word"

section \<open>The capability descriptor\<close>

text \<open>
  Modelled from the spec: the per-capability \<open>Ya*::ConstructArgs\<close> structs are declared
  in headers elsewhere in the repository. The spec describes each field of the descriptor
  as a present/absent flag ("the remote object answers a capability query for this
  interface"), optionally with static metadata that cannot change (for a component, the
  class id of its edit controller).
\<close>

record sub_args =
  supported :: bool
  static_data :: "tuid option"

text \<open>\<open>Vst3PluginProxy::ConstructArgs\<close>, field by field as in \<open>plugin-proxy.h\<close>.\<close>

record ConstructArgs =
  instance_id :: size_t
  audio_presentation_latency_args :: sub_args
  audio_processor_args :: sub_args
  automation_state_args :: sub_args
  component_args :: sub_args
  connection_point_args :: sub_args
  edit_controller_args :: sub_args
  edit_controller_2_args :: sub_args
  edit_controller_host_editing_args :: sub_args
  info_listener_args :: sub_args
  keyswitch_controller_args :: sub_args
  midi_learn_args :: sub_args
  midi_mapping_args :: sub_args
  note_expression_controller_args :: sub_args
  note_expression_physical_ui_mapping_args :: sub_args
  parameter_function_name_args :: sub_args
  plugin_base_args :: sub_args
  prefetchable_support_args :: sub_args
  process_context_requirements_args :: sub_args
  program_list_data_args :: sub_args
  unit_data_args :: sub_args
  unit_info_args :: sub_args
  xml_representation_controller_args :: sub_args

text \<open>The descriptor field that belongs to a capability of the catalogue.\<close>

fun args_of :: "interface \<Rightarrow> ConstructArgs \<Rightarrow> sub_args option" where
  "args_of FUnknown a = None"
| "args_of IAudioPresentationLatency a = Some (audio_presentation_latency_args a)"
| "args_of IAudioProcessor a = Some (audio_processor_args a)"
| "args_of IAutomationState a = Some (automation_state_args a)"
| "args_of IComponent a = Some (component_args a)"
| "args_of IConnectionPoint a = Some (connection_point_args a)"
| "args_of IEditController a = Some (edit_controller_args a)"
| "args_of IEditController2 a = Some (edit_controller_2_args a)"
| "args_of IEditControllerHostEditing a = Some (edit_controller_host_editing_args a)"
| "args_of IInfoListener a = Some (info_listener_args a)"
| "args_of IKeyswitchController a = Some (keyswitch_controller_args a)"
| "args_of IMidiLearn a = Some (midi_learn_args a)"
| "args_of IMidiMapping a = Some (midi_mapping_args a)"
| "args_of INoteExpressionController a = Some (note_expression_controller_args a)"
| "args_of INoteExpressionPhysicalUIMapping a =
     Some (note_expression_physical_ui_mapping_args a)"
| "args_of IParameterFunctionName a = Some (parameter_function_name_args a)"
| "args_of IPluginBase a = Some (plugin_base_args a)"
| "args_of IPrefetchableSupport a = Some (prefetchable_support_args a)"
| "args_of IProcessContextRequirements a = Some (process_context_requirements_args a)"
| "args_of IProgramListData a = Some (program_list_data_args a)"
| "args_of IUnitData a = Some (unit_data_args a)"
| "args_of IUnitInfo a = Some (unit_info_args a)"
| "args_of IXmlRepresentationController a = Some (xml_representation_controller_args a)"

text \<open>The set \<open>S\<close> of capabilities a descriptor marks present.\<close>

definition marked_present :: "ConstructArgs \<Rightarrow> interface \<Rightarrow> bool" where
  "marked_present a c \<longleftrightarrow> (case args_of c a of None \<Rightarrow> False | Some s \<Rightarrow> supported s)"

section \<open>Discovery: building a descriptor from a real object\<close>

text \<open>
  Modelled from the spec: the real plugin object and the per-capability constructors
  \<open>Ya*::ConstructArgs(object)\<close> are defined elsewhere in the repository. The discovery
  collaborator is described as "given a capability tag, returns whether/how to invoke the
  real underlying object", and a descriptor field as the answer of the real object to a
  capability query plus static metadata read from it.
\<close>

record real_object =
  implements :: "interface \<Rightarrow> bool"
  metadata :: "interface \<Rightarrow> tuid option"

definition probe :: "real_object \<Rightarrow> interface \<Rightarrow> sub_args" where
  "probe object i =
     \<lparr>supported = implements object i,
      static_data = (if implements object i then metadata object i else None)\<rparr>"

text \<open>
  \<open>Vst3PluginProxy::ConstructArgs::ConstructArgs(object, instance_id)\<close>, from the member
  initialiser list in \<open>plugin-proxy.cpp\<close>. A member the list does not mention is
  default-constructed; what the default constructor of a per-capability struct leaves in
  it is defined elsewhere in the repository, so that value is the parameter \<open>dflt\<close>.
\<close>

definition ConstructArgs_ctor :: "sub_args \<Rightarrow> real_object \<Rightarrow> size_t \<Rightarrow> ConstructArgs" where
  "ConstructArgs_ctor dflt object iid =
     \<lparr>instance_id = iid,
      audio_presentation_latency_args = probe object IAudioPresentationLatency,
      audio_processor_args = probe object IAudioProcessor,
      automation_state_args = probe object IAutomationState,
      component_args = probe object IComponent,
      connection_point_args = probe object IConnectionPoint,
      edit_controller_args = probe object IEditController,
      edit_controller_2_args = probe object IEditController2,
      edit_controller_host_editing_args = probe object IEditControllerHostEditing,
      info_listener_args = probe object IInfoListener,
      keyswitch_controller_args = probe object IKeyswitchController,
      midi_learn_args = probe object IMidiLearn,
      midi_mapping_args = probe object IMidiMapping,
      note_expression_controller_args = probe object INoteExpressionController,
      note_expression_physical_ui_mapping_args = dflt,
      parameter_function_name_args = probe object IParameterFunctionName,
      plugin_base_args = probe object IPluginBase,
      prefetchable_support_args = probe object IPrefetchableSupport,
      process_context_requirements_args = probe object IProcessContextRequirements,
      program_list_data_args = probe object IProgramListData,
      unit_data_args = probe object IUnitData,
      unit_info_args = probe object IUnitInfo,
      xml_representation_controller_args = probe object IXmlRepresentationController\<rparr>"

section \<open>The remote object proxy\<close>

text \<open>
  \<open>Vst3PluginProxy\<close>: the \<open>arguments_\<close> member of each of its twenty-two bases, its own
  \<open>arguments_\<close> (the whole descriptor) and the reference count that \<open>FUNKNOWN_CTOR\<close>
  sets to one. The per-capability structs hold a flag and a fixed-size array, so moving
  one copies it.
\<close>

record Vst3PluginProxy =
  YaAudioPresentationLatency_arguments :: sub_args
  YaAudioProcessor_arguments :: sub_args
  YaAutomationState_arguments :: sub_args
  YaComponent_arguments :: sub_args
  YaConnectionPoint_arguments :: sub_args
  YaEditController_arguments :: sub_args
  YaEditController2_arguments :: sub_args
  YaEditControllerHostEditing_arguments :: sub_args
  YaInfoListener_arguments :: sub_args
  YaKeyswitchController_arguments :: sub_args
  YaMidiLearn_arguments :: sub_args
  YaMidiMapping_arguments :: sub_args
  YaNoteExpressionController_arguments :: sub_args
  YaNoteExpressionPhysicalUIMapping_arguments :: sub_args
  YaParameterFunctionName_arguments :: sub_args
  YaPluginBase_arguments :: sub_args
  YaPrefetchableSupport_arguments :: sub_args
  YaProcessContextRequirements_arguments :: sub_args
  YaProgramListData_arguments :: sub_args
  YaUnitData_arguments :: sub_args
  YaUnitInfo_arguments :: sub_args
  YaXmlRepresentationController_arguments :: sub_args
  arguments :: ConstructArgs
  funknownRefCount :: "32 word"

text \<open>The constructor \<open>Vst3PluginProxy(ConstructArgs&& args)\<close>.\<close>

definition new_Vst3PluginProxy :: "ConstructArgs \<Rightarrow> Vst3PluginProxy" where
  "new_Vst3PluginProxy args =
     \<lparr>YaAudioPresentationLatency_arguments = audio_presentation_latency_args args,
      YaAudioProcessor_arguments = audio_processor_args args,
      YaAutomationState_arguments = automation_state_args args,
      YaComponent_arguments = component_args args,
      YaConnectionPoint_arguments = connection_point_args args,
      YaEditController_arguments = edit_controller_args args,
      YaEditController2_arguments = edit_controller_2_args args,
      YaEditControllerHostEditing_arguments = edit_controller_host_editing_args args,
      YaInfoListener_arguments = info_listener_args args,
      YaKeyswitchController_arguments = keyswitch_controller_args args,
      YaMidiLearn_arguments = midi_learn_args args,
      YaMidiMapping_arguments = midi_mapping_args args,
      YaNoteExpressionController_arguments = note_expression_controller_args args,
      YaNoteExpressionPhysicalUIMapping_arguments = note_expression_physical_ui_mapping_args args,
      YaParameterFunctionName_arguments = parameter_function_name_args args,
      YaPluginBase_arguments = plugin_base_args args,
      YaPrefetchableSupport_arguments = prefetchable_support_args args,
      YaProcessContextRequirements_arguments = process_context_requirements_args args,
      YaProgramListData_arguments = program_list_data_args args,
      YaUnitData_arguments = unit_data_args args,
      YaUnitInfo_arguments = unit_info_args args,
      YaXmlRepresentationController_arguments = xml_representation_controller_args args,
      arguments = args,
      funknownRefCount = 1\<rparr>"

text \<open>The \<open>arguments_\<close> member of the base class that implements a capability.\<close>

fun base_arguments :: "interface \<Rightarrow> Vst3PluginProxy \<Rightarrow> sub_args option" where
  "base_arguments FUnknown this = None"
| "base_arguments IAudioPresentationLatency this = Some (YaAudioPresentationLatency_arguments this)"
| "base_arguments IAudioProcessor this = Some (YaAudioProcessor_arguments this)"
| "base_arguments IAutomationState this = Some (YaAutomationState_arguments this)"
| "base_arguments IComponent this = Some (YaComponent_arguments this)"
| "base_arguments IConnectionPoint this = Some (YaConnectionPoint_arguments this)"
| "base_arguments IEditController this = Some (YaEditController_arguments this)"
| "base_arguments IEditController2 this = Some (YaEditController2_arguments this)"
| "base_arguments IEditControllerHostEditing this = Some (YaEditControllerHostEditing_arguments this)"
| "base_arguments IInfoListener this = Some (YaInfoListener_arguments this)"
| "base_arguments IKeyswitchController this = Some (YaKeyswitchController_arguments this)"
| "base_arguments IMidiLearn this = Some (YaMidiLearn_arguments this)"
| "base_arguments IMidiMapping this = Some (YaMidiMapping_arguments this)"
| "base_arguments INoteExpressionController this = Some (YaNoteExpressionController_arguments this)"
| "base_arguments INoteExpressionPhysicalUIMapping this = Some (YaNoteExpressionPhysicalUIMapping_arguments this)"
| "base_arguments IParameterFunctionName this = Some (YaParameterFunctionName_arguments this)"
| "base_arguments IPluginBase this = Some (YaPluginBase_arguments this)"
| "base_arguments IPrefetchableSupport this = Some (YaPrefetchableSupport_arguments this)"
| "base_arguments IProcessContextRequirements this = Some (YaProcessContextRequirements_arguments this)"
| "base_arguments IProgramListData this = Some (YaProgramListData_arguments this)"
| "base_arguments IUnitData this = Some (YaUnitData_arguments this)"
| "base_arguments IUnitInfo this = Some (YaUnitInfo_arguments this)"
| "base_arguments IXmlRepresentationController this = Some (YaXmlRepresentationController_arguments this)"

text \<open>\<open>Vst3PluginProxy::instance_id()\<close>.\<close>

definition proxy_instance_id :: "Vst3PluginProxy \<Rightarrow> size_t" where
  "proxy_instance_id this = instance_id (arguments this)"

text \<open>
  \<open>addRef\<close> (from \<open>IMPLEMENT_REFCOUNT\<close>) and the body of the \<open>QUERY_INTERFACE\<close> macro
  once the identifier has matched: count the reference, store the pointer to the base
  subobject in \<open>*obj\<close> and return \<open>kResultOk\<close>. A pointer is modelled by the interface
  it was cast to, \<open>None\<close> being the null pointer.
\<close>

definition addRef :: "Vst3PluginProxy \<Rightarrow> Vst3PluginProxy" where
  "addRef this = this\<lparr>funknownRefCount := funknownRefCount this + 1\<rparr>"

definition found :: "Vst3PluginProxy \<Rightarrow> interface \<Rightarrow> Vst3PluginProxy \<times> tresult \<times> interface option" where
  "found this i = (addRef this, kResultOk, Some i)"

text \<open>
  \<open>Vst3PluginProxy::queryInterface(_iid, obj)\<close>. The interface identifiers are constants
  of the plugin SDK: \<open>iid\<close> gives the identifier of each
  interface. The result is the proxy (its reference count may have changed), the status
  and the pointer written to \<open>*obj\<close>.
\<close>

definition queryInterface ::
  "(interface \<Rightarrow> tuid) \<Rightarrow> Vst3PluginProxy \<Rightarrow> tuid \<Rightarrow> Vst3PluginProxy \<times> tresult \<times> interface option" where
  "queryInterface iid this iid_arg =
     (if supported (YaPluginBase_arguments this) \<and> iidEqual iid_arg (iid FUnknown)
        then found this IPluginBase
      else if supported (YaPluginBase_arguments this) \<and> iidEqual iid_arg (iid IPluginBase)
        then found this IPluginBase
      else if supported (YaAudioPresentationLatency_arguments this) \<and> iidEqual iid_arg (iid IAudioPresentationLatency)
        then found this IAudioPresentationLatency
      else if supported (YaAudioProcessor_arguments this) \<and> iidEqual iid_arg (iid IAudioProcessor)
        then found this IAudioProcessor
      else if supported (YaAutomationState_arguments this) \<and> iidEqual iid_arg (iid IAutomationState)
        then found this IAutomationState
      else if supported (YaComponent_arguments this) \<and> iidEqual iid_arg (iid IComponent)
        then found this IComponent
      else if supported (YaConnectionPoint_arguments this) \<and> iidEqual iid_arg (iid IConnectionPoint)
        then found this IConnectionPoint
      else if supported (YaEditController_arguments this) \<and> iidEqual iid_arg (iid IEditController)
        then found this IEditController
      else if supported (YaEditController2_arguments this) \<and> iidEqual iid_arg (iid IEditController2)
        then found this IEditController2
      else if supported (YaEditControllerHostEditing_arguments this) \<and> iidEqual iid_arg (iid IEditControllerHostEditing)
        then found this IEditControllerHostEditing
      else if supported (YaInfoListener_arguments this) \<and> iidEqual iid_arg (iid IInfoListener)
        then found this IInfoListener
      else if supported (YaKeyswitchController_arguments this) \<and> iidEqual iid_arg (iid IKeyswitchController)
        then found this IKeyswitchController
      else if supported (YaMidiLearn_arguments this) \<and> iidEqual iid_arg (iid IMidiLearn)
        then found this IMidiLearn
      else if supported (YaMidiMapping_arguments this) \<and> iidEqual iid_arg (iid IMidiMapping)
        then found this IMidiMapping
      else if supported (YaNoteExpressionController_arguments this) \<and> iidEqual iid_arg (iid INoteExpressionController)
        then found this INoteExpressionController
      else if supported (YaNoteExpressionPhysicalUIMapping_arguments this) \<and> iidEqual iid_arg (iid INoteExpressionPhysicalUIMapping)
        then found this INoteExpressionPhysicalUIMapping
      else if supported (YaParameterFunctionName_arguments this) \<and> iidEqual iid_arg (iid IParameterFunctionName)
        then found this IParameterFunctionName
      else if supported (YaPrefetchableSupport_arguments this) \<and> iidEqual iid_arg (iid IPrefetchableSupport)
        then found this IPrefetchableSupport
      else if supported (YaProcessContextRequirements_arguments this) \<and> iidEqual iid_arg (iid IProcessContextRequirements)
        then found this IProcessContextRequirements
      else if supported (YaProgramListData_arguments this) \<and> iidEqual iid_arg (iid IProgramListData)
        then found this IProgramListData
      else if supported (YaUnitData_arguments this) \<and> iidEqual iid_arg (iid IUnitData)
        then found this IUnitData
      else if supported (YaUnitInfo_arguments this) \<and> iidEqual iid_arg (iid IUnitInfo)
        then found this IUnitInfo
      else if supported (YaXmlRepresentationController_arguments this) \<and> iidEqual iid_arg (iid IXmlRepresentationController)
        then found this IXmlRepresentationController
      else (this, kNoInterface, None))"

text \<open>
  What stops a call: a failed \<open>assert\<close>, the \<open>std::out_of_range\<close> that \<open>at()\<close> of a
  standard map throws for a missing key, or the error of a read or write on a stream
  that is not connected.
\<close>

datatype error = AssertionFailed | OutOfRange | Disconnected

text \<open>
  \<open>Vst3PluginProxy::update_supported_interfaces(updated_interfaces)\<close>. The build
  does not define \<open>NDEBUG\<close>, so the assertion at its head is checked.
\<close>

definition update_supported_interfaces ::
  "Vst3PluginProxy \<Rightarrow> ConstructArgs \<Rightarrow> error + Vst3PluginProxy" where
  "update_supported_interfaces this updated_interfaces =
     (if instance_id (arguments this) \<noteq> instance_id updated_interfaces then Inl AssertionFailed
      else Inr (this
        \<lparr>YaAudioPresentationLatency_arguments := audio_presentation_latency_args updated_interfaces,
         YaAudioProcessor_arguments := audio_processor_args updated_interfaces,
         YaAutomationState_arguments := automation_state_args updated_interfaces,
         YaComponent_arguments := component_args updated_interfaces,
         YaConnectionPoint_arguments := connection_point_args updated_interfaces,
         YaEditController_arguments := edit_controller_args updated_interfaces,
         YaEditController2_arguments := edit_controller_2_args updated_interfaces,
         YaEditControllerHostEditing_arguments := edit_controller_host_editing_args updated_interfaces,
         YaInfoListener_arguments := info_listener_args updated_interfaces,
         YaKeyswitchController_arguments := keyswitch_controller_args updated_interfaces,
         YaMidiLearn_arguments := midi_learn_args updated_interfaces,
         YaMidiMapping_arguments := midi_mapping_args updated_interfaces,
         YaNoteExpressionController_arguments := note_expression_controller_args updated_interfaces,
         YaNoteExpressionPhysicalUIMapping_arguments := note_expression_physical_ui_mapping_args updated_interfaces,
         YaParameterFunctionName_arguments := parameter_function_name_args updated_interfaces,
         YaPluginBase_arguments := plugin_base_args updated_interfaces,
         YaPrefetchableSupport_arguments := prefetchable_support_args updated_interfaces,
         YaProcessContextRequirements_arguments := process_context_requirements_args updated_interfaces,
         YaProgramListData_arguments := program_list_data_args updated_interfaces,
         YaUnitData_arguments := unit_data_args updated_interfaces,
         YaUnitInfo_arguments := unit_info_args updated_interfaces,
         YaXmlRepresentationController_arguments := xml_representation_controller_args updated_interfaces,
         arguments := updated_interfaces\<rparr>))"

text \<open>
  The operations a holder of the proxy can apply to it, and a run of them that stops at
  the first failed assertion.
\<close>

datatype proxy_call =
    QueryInterface tuid
  | UpdateSupportedInterfaces ConstructArgs
  | AddRef

fun proxy_step :: "(interface \<Rightarrow> tuid) \<Rightarrow> Vst3PluginProxy \<Rightarrow> proxy_call \<Rightarrow> error + Vst3PluginProxy" where
  "proxy_step iid this (QueryInterface iid_arg) = Inr (fst (queryInterface iid this iid_arg))"
| "proxy_step iid this (UpdateSupportedInterfaces updated_interfaces) =
     update_supported_interfaces this updated_interfaces"
| "proxy_step iid this AddRef = Inr (addRef this)"

fun proxy_run :: "(interface \<Rightarrow> tuid) \<Rightarrow> Vst3PluginProxy \<Rightarrow> proxy_call list \<Rightarrow> error + Vst3PluginProxy" where
  "proxy_run iid this [] = Inr this"
| "proxy_run iid this (c # cs) =
     (case proxy_step iid this c of
        Inl e \<Rightarrow> Inl e
      | Inr this' \<Rightarrow> proxy_run iid this' cs)"

section \<open>The plugin factory proxy: \<open>createInstance\<close>\<close>

text \<open>The message \<open>Vst3PluginProxy::Construct\<close> and its response variant.\<close>

datatype Construct_Interface = Interface_IComponent | Interface_IEditController

record Construct =
  cid :: tuid
  requested_interface :: Construct_Interface

datatype Construct_Response =
    Response_ConstructArgs ConstructArgs
  | Response_UniversalTResult UniversalTResult

text \<open>
  A pointer to an object allocated with \<open>new\<close>: the index of the object among the
  allocated proxies and the interface the pointer was cast to.
\<close>

datatype pointer = nullptr | Ptr nat interface

text \<open>
  The state of the plugin side that \<open>createInstance\<close> touches: the \<open>Construct\<close> messages
  sent to the remote side so far, the lines given to the logger, and the proxy objects
  allocated so far.
\<close>

record plugin_side =
  sent_messages :: "Construct list"
  logged :: "(string \<times> tresult \<times> tuid) list"
  proxy_objects :: "Vst3PluginProxy list"

text \<open>
  Modelled from the spec: \<open>Vst3PluginBridge::send_mutually_recursive_message\<close> is defined
  elsewhere in the repository. The Construct exchange sends the message to the remote side, which
  answers with a descriptor or with a status code only; \<open>remote\<close> is that answer.
\<close>

definition send_mutually_recursive_message ::
  "(Construct \<Rightarrow> Construct_Response) \<Rightarrow> plugin_side \<Rightarrow> Construct \<Rightarrow> plugin_side \<times> Construct_Response" where
  "send_mutually_recursive_message remote bridge message =
     (bridge\<lparr>sent_messages := sent_messages bridge @ [message]\<rparr>, remote message)"

text \<open>\<open>strnlen(s, n)\<close>: the number of bytes before the first zero byte, at most \<open>n\<close>.\<close>

definition strnlen :: "byte list \<Rightarrow> nat \<Rightarrow> nat" where
  "strnlen s n = length (takeWhile (\<lambda>b. b \<noteq> 0) (take n s))"

text \<open>
  The second half of \<open>createInstance\<close>: the Construct exchange and the \<open>std::visit\<close>
  over its response. \<open>new Vst3PluginProxyImpl(bridge_, args)\<close> allocates an object
  whose \<open>Vst3PluginProxy\<close> part is built by the constructor above.
\<close>

definition construct_and_visit ::
  "(Construct \<Rightarrow> Construct_Response) \<Rightarrow> plugin_side \<Rightarrow> tuid \<Rightarrow> Construct_Interface
     \<Rightarrow> pointer \<Rightarrow> tresult \<times> pointer \<times> plugin_side" where
  "construct_and_visit remote bridge cid_array requested obj_slot =
     (case send_mutually_recursive_message remote bridge
             \<lparr>cid = cid_array, requested_interface = requested\<rparr> of
        (bridge', Response_ConstructArgs args) \<Rightarrow>
          (let proxy_object = length (proxy_objects bridge');
               bridge'' = bridge'\<lparr>proxy_objects :=
                            proxy_objects bridge' @ [new_Vst3PluginProxy args]\<rparr>
           in (kResultOk,
               (case requested of
                  Interface_IComponent \<Rightarrow> Ptr proxy_object IComponent
                | Interface_IEditController \<Rightarrow> Ptr proxy_object IEditController),
               bridge''))
      | (bridge', Response_UniversalTResult code) \<Rightarrow> (to_native code, obj_slot, bridge'))"

text \<open>
  \<open>Vst3PluginFactoryProxyImpl::createInstance(cid, _iid, obj)\<close>. A pointer argument is
  \<open>None\<close> when it is null; \<open>cid\<close> and \<open>_iid\<close> otherwise give the bytes behind the pointer
  and \<open>obj\<close> the pointer currently stored in the slot it points at. The result is the
  status, the slot after the call (\<open>None\<close> when \<open>obj\<close> was null) and the plugin side.
\<close>

definition createInstance ::
  "(interface \<Rightarrow> tuid) \<Rightarrow> (Construct \<Rightarrow> Construct_Response) \<Rightarrow> plugin_side
     \<Rightarrow> byte list option \<Rightarrow> byte list option \<Rightarrow> pointer option
     \<Rightarrow> tresult \<times> pointer option \<times> plugin_side" where
  "createInstance iid remote bridge cid_arg iid_arg obj =
     (case (cid_arg, iid_arg, obj) of
        (Some cid_mem, Some iid_mem, Some obj_slot) \<Rightarrow>
          (if strnlen iid_mem uid_size < uid_size then (kInvalidArgument, obj, bridge)
           else
             (let cid_array = take uid_size cid_mem;
                  requested_iid = take uid_size iid_mem
              in if iidEqual requested_iid (iid IComponent) then
                   (case construct_and_visit remote bridge cid_array Interface_IComponent obj_slot of
                      (result, slot, bridge') \<Rightarrow> (result, Some slot, bridge'))
                 else if iidEqual requested_iid (iid IEditController) then
                   (case construct_and_visit remote bridge cid_array Interface_IEditController obj_slot of
                      (result, slot, bridge') \<Rightarrow> (result, Some slot, bridge'))
                 else
                   (kNotImplemented, Some nullptr,
                    bridge\<lparr>logged := logged bridge @
                      [(''In IPluginFactory::createInstance()'', kNotImplemented, requested_iid)]\<rparr>)))
      | _ \<Rightarrow> (kInvalidArgument, obj, bridge))"

section \<open>Message channels\<close>

text \<open>
  Modelled from the spec: \<open>AdHocSocketHandler\<close>, the base class of
  \<open>Vst3MessageHandler\<close>, is defined elsewhere in the repository. A channel "owns a primary
  connection and zero or more transient connections created on demand". Its state is the
  endpoint it is bound to, whether it listens, whether it is connected or closed, the
  thread that currently occupies the primary connection (a thread sending on it, or the
  thread inside the receive loop on it), whether the background task that accepts
  additional connections runs, and the number of ad-hoc connections established so far.
\<close>

type_synonym thread = nat

datatype connection = Primary | Secondary nat

record Vst3MessageHandler =
  endpoint :: string
  listen :: bool
  connected :: bool
  closed :: bool
  primary_owner :: "thread option"
  acceptor_running :: bool
  ad_hoc_connections :: nat

text \<open>The constructor \<open>Vst3MessageHandler(io_context, endpoint, listen)\<close>.\<close>

definition new_Vst3MessageHandler :: "string \<Rightarrow> bool \<Rightarrow> Vst3MessageHandler" where
  "new_Vst3MessageHandler ep l =
     \<lparr>endpoint = ep, listen = l, connected = False, closed = False,
      primary_owner = None, acceptor_running = False, ad_hoc_connections = 0\<rparr>"

text \<open>Modelled from the spec: \<open>connect()\<close> establishes and \<open>close()\<close> tears down a channel.\<close>

definition connect :: "Vst3MessageHandler \<Rightarrow> Vst3MessageHandler" where
  "connect h = h\<lparr>connected := True\<rparr>"

definition close :: "Vst3MessageHandler \<Rightarrow> Vst3MessageHandler" where
  "close h = h\<lparr>connected := False, closed := True\<rparr>"

text \<open>
  Modelled from the spec: \<open>AdHocSocketHandler::send(callback)\<close>. "If the calling thread
  already owns the primary connection [...] a brand-new connection is transparently
  established for this call instead of reusing the primary one", and two threads calling
  at once get "a second connection so neither call blocks the other"; the comment in
  \<open>receive_into\<close> says the same ("will either use a long-living primary socket, or if
  that's currently in use it will spawn a new socket for us"). A call takes a connection,
  runs the callback on it and gives the primary connection back if it took that one.
  "A malformed or disconnected stream aborts the blocking call with a fatal local
  error": on a channel that was never connected or has been closed the call fails and
  nothing is exchanged.
\<close>

definition acquire :: "thread \<Rightarrow> Vst3MessageHandler \<Rightarrow> Vst3MessageHandler \<times> connection" where
  "acquire t h =
     (case primary_owner h of
        None \<Rightarrow> (h\<lparr>primary_owner := Some t\<rparr>, Primary)
      | Some owner \<Rightarrow>
          (h\<lparr>ad_hoc_connections := ad_hoc_connections h + 1\<rparr>,
           Secondary (ad_hoc_connections h)))"

definition release :: "connection \<Rightarrow> Vst3MessageHandler \<Rightarrow> Vst3MessageHandler" where
  "release socket h =
     (case socket of
        Primary \<Rightarrow> h\<lparr>primary_owner := None\<rparr>
      | Secondary n \<Rightarrow> h)"

definition send ::
  "thread \<Rightarrow> Vst3MessageHandler \<Rightarrow> (connection \<Rightarrow> 'a)
     \<Rightarrow> error + (Vst3MessageHandler \<times> connection \<times> 'a)" where
  "send t h callback =
     (if closed h \<or> \<not> connected h then Inl Disconnected
      else case acquire t h of
             (h', socket) \<Rightarrow> Inr (release socket h', socket, callback socket))"

text \<open>
  \<open>Vst3MessageHandler::receive_into(object, response_object, logging, buffer)\<close>, called
  by thread \<open>t\<close>: the request is written to the socket that \<open>send\<close> hands over and the
  response is read from the same socket; \<open>peer\<close> is what the other side answers on a
  connection. Logging only observes the request and the response and is left out. The
  result also names the connection the exchange ran on; an error of \<open>send\<close> propagates.
\<close>

definition receive_into ::
  "thread \<Rightarrow> Vst3MessageHandler \<Rightarrow> (connection \<Rightarrow> 'req \<Rightarrow> 'resp) \<Rightarrow> 'req
     \<Rightarrow> error + (Vst3MessageHandler \<times> connection \<times> 'resp)" where
  "receive_into t h peer object = send t h (\<lambda>socket. peer socket object)"

text \<open>
  Modelled from the spec: entering \<open>receive_messages\<close>, that is
  \<open>AdHocSocketHandler::receive_multi\<close>: "spawns a background task that accepts additional
  incoming connections on the same logical endpoint, and enters a blocking loop on the
  primary connection". This is the state of the channel while thread \<open>t\<close> is inside that
  loop.
\<close>

definition receive_messages_enter :: "thread \<Rightarrow> Vst3MessageHandler \<Rightarrow> Vst3MessageHandler" where
  "receive_messages_enter t h = h\<lparr>primary_owner := Some t, acceptor_running := True\<rparr>"


section \<open>The channel registry\<close>

text \<open>
  \<open>Vst3Sockets\<close>: the two general-purpose channels and the map of per-instance channels.
  The mutex orders the calls; each function below is one critical section. Closing a
  socket acts on the operating system and outlives the handler object that is erased
  afterwards, so the state also lists, in order, the endpoints of the sockets closed so
  far.
\<close>

record Vst3Sockets =
  base_dir :: string
  host_vst_control :: Vst3MessageHandler
  vst_host_callback :: Vst3MessageHandler
  audio_processor_sockets :: "size_t \<rightharpoonup> Vst3MessageHandler"
  closed_sockets :: "string list"

text \<open>
  \<open>base_dir_ / name\<close> for a relative \<open>name\<close>, as \<open>path::operator/\<close> joins them: an empty
  directory gives the name alone, and a separator is added only when the directory does
  not end in one.
\<close>

definition path_append :: "string \<Rightarrow> string \<Rightarrow> string" where
  "path_append dir name =
     (if dir = [] then name
      else if last dir = CHR ''/'' then dir @ name
      else dir @ ''/'' @ name)"

text \<open>\<open>std::to_string\<close> on an unsigned number: its decimal digits.\<close>

fun to_string :: "nat \<Rightarrow> string" where
  "to_string n =
     (if n < 10 then [char_of (48 + n)]
      else to_string (n div 10) @ [char_of (48 + n mod 10)])"

declare to_string.simps [simp del]

definition audio_processor_endpoint :: "string \<Rightarrow> size_t \<Rightarrow> string" where
  "audio_processor_endpoint dir iid =
     path_append dir (''host_vst_audio_processor_'' @ to_string (unat iid) @ ''.sock'')"

definition new_Vst3Sockets :: "string \<Rightarrow> bool \<Rightarrow> Vst3Sockets" where
  "new_Vst3Sockets dir l =
     \<lparr>base_dir = dir,
      host_vst_control = new_Vst3MessageHandler (path_append dir ''host_vst_control.sock'') l,
      vst_host_callback = new_Vst3MessageHandler (path_append dir ''vst_host_callback.sock'') l,
      audio_processor_sockets = Map.empty,
      closed_sockets = []\<rparr>"

text \<open>\<open>try_emplace\<close>: insert unless the key is there already.\<close>

definition try_emplace :: "('k \<rightharpoonup> 'v) \<Rightarrow> 'k \<Rightarrow> 'v \<Rightarrow> ('k \<rightharpoonup> 'v)" where
  "try_emplace m k v = (case m k of None \<Rightarrow> m(k \<mapsto> v) | Some old \<Rightarrow> m)"

text \<open>\<open>Vst3Sockets::add_audio_processor_and_connect(instance_id)\<close>.\<close>

definition add_audio_processor_and_connect :: "Vst3Sockets \<Rightarrow> size_t \<Rightarrow> error + Vst3Sockets" where
  "add_audio_processor_and_connect this iid =
     (let m = try_emplace (audio_processor_sockets this) iid
                (new_Vst3MessageHandler (audio_processor_endpoint (base_dir this) iid) False)
      in case m iid of
           None \<Rightarrow> Inl OutOfRange
         | Some h \<Rightarrow> Inr (this\<lparr>audio_processor_sockets := m(iid \<mapsto> connect h)\<rparr>))"

text \<open>
  \<open>Vst3Sockets::add_audio_processor_and_listen(instance_id, latch, callback)\<close>, up to the
  point where the calling thread \<open>t\<close> is inside the receive loop of the new channel.
\<close>

definition add_audio_processor_and_listen ::
  "thread \<Rightarrow> Vst3Sockets \<Rightarrow> size_t \<Rightarrow> error + Vst3Sockets" where
  "add_audio_processor_and_listen t this iid =
     (let m = try_emplace (audio_processor_sockets this) iid
                (new_Vst3MessageHandler (audio_processor_endpoint (base_dir this) iid) True)
      in case m iid of
           None \<Rightarrow> Inl OutOfRange
         | Some h \<Rightarrow>
             Inr (this\<lparr>audio_processor_sockets :=
                         m(iid \<mapsto> receive_messages_enter t (connect h))\<rparr>))"

text \<open>
  \<open>Vst3Sockets::remove_audio_processor(instance_id)\<close>: when the map contains the
  identifier, \<open>at(instance_id).close()\<close> closes the socket of the channel, then
  \<open>erase(instance_id)\<close> drops the entry.
\<close>

definition remove_audio_processor :: "Vst3Sockets \<Rightarrow> size_t \<Rightarrow> bool \<times> Vst3Sockets" where
  "remove_audio_processor this iid =
     (case audio_processor_sockets this iid of
        Some h \<Rightarrow>
          (let this1 = this\<lparr>audio_processor_sockets := (audio_processor_sockets this)(iid \<mapsto> close h),
                            closed_sockets := closed_sockets this @ [endpoint h]\<rparr>;
               this2 = this1\<lparr>audio_processor_sockets := (audio_processor_sockets this1)(iid := None)\<rparr>
           in (True, this2))
      | None \<Rightarrow> (False, this))"

text \<open>
  The private \<open>Vst3Sockets::receive_audio_processor_message_into(object,
  response_object, instance_id, logging)\<close>, called by thread \<open>t\<close>: \<open>at(instance_id)\<close>
  throws for a missing key, and an error of \<open>receive_into\<close> propagates.
\<close>

definition receive_audio_processor_message_into ::
  "thread \<Rightarrow> Vst3Sockets \<Rightarrow> (connection \<Rightarrow> 'req \<Rightarrow> 'resp) \<Rightarrow> 'req \<Rightarrow> size_t
     \<Rightarrow> error + (Vst3Sockets \<times> connection \<times> 'resp)" where
  "receive_audio_processor_message_into t this peer object iid =
     (case audio_processor_sockets this iid of
        None \<Rightarrow> Inl OutOfRange
      | Some h \<Rightarrow>
          (case receive_into t h peer object of
             Inl e \<Rightarrow> Inl e
           | Inr (h', socket, response) \<Rightarrow>
               Inr (this\<lparr>audio_processor_sockets := (audio_processor_sockets this)(iid \<mapsto> h')\<rparr>,
                    socket, response)))"

text \<open>
  \<open>Vst3Sockets::send_audio_processor_message(object, logging)\<close>: a request of the
  per-instance channel carries the identifier of its instance.
\<close>

record 'a audio_processor_request =
  request_instance_id :: size_t
  payload :: 'a

definition send_audio_processor_message ::
  "thread \<Rightarrow> Vst3Sockets \<Rightarrow> (connection \<Rightarrow> 'a audio_processor_request \<Rightarrow> 'resp) \<Rightarrow> 'a audio_processor_request
     \<Rightarrow> error + (Vst3Sockets \<times> connection \<times> 'resp)" where
  "send_audio_processor_message t this peer object =
     receive_audio_processor_message_into t this peer object (request_instance_id object)"

section \<open>Reading the arguments of \<open>createInstance\<close>\<close>

text \<open>
  Which interface a valid \<open>_iid\<close> argument asks for (the \<open>if\<close> chain of
  \<open>createInstance\<close>), and the interface a value of the \<open>Construct::Interface\<close>
  enumeration stands for (the \<open>switch\<close> that casts the new proxy).
\<close>

definition requested_interface_of :: "(interface \<Rightarrow> tuid) \<Rightarrow> byte list \<Rightarrow> Construct_Interface option" where
  "requested_interface_of iid iid_mem =
     (if iidEqual (take uid_size iid_mem) (iid IComponent) then Some Interface_IComponent
      else if iidEqual (take uid_size iid_mem) (iid IEditController) then Some Interface_IEditController
      else None)"

fun interface_of :: "Construct_Interface \<Rightarrow> interface" where
  "interface_of Interface_IComponent = IComponent"
| "interface_of Interface_IEditController = IEditController"

section \<open>Sample data\<close>

text \<open>
  Interface identifiers for the examples: sixteen bytes each, the last one numbering the
  interface in the order of its declaration.
\<close>

fun interface_index :: "interface \<Rightarrow> nat" where
  "interface_index FUnknown = 0"
| "interface_index IAudioPresentationLatency = 1"
| "interface_index IAudioProcessor = 2"
| "interface_index IAutomationState = 3"
| "interface_index IComponent = 4"
| "interface_index IConnectionPoint = 5"
| "interface_index IEditController = 6"
| "interface_index IEditController2 = 7"
| "interface_index IEditControllerHostEditing = 8"
| "interface_index IInfoListener = 9"
| "interface_index IKeyswitchController = 10"
| "interface_index IMidiLearn = 11"
| "interface_index IMidiMapping = 12"
| "interface_index INoteExpressionController = 13"
| "interface_index INoteExpressionPhysicalUIMapping = 14"
| "interface_index IParameterFunctionName = 15"
| "interface_index IPluginBase = 16"
| "interface_index IPrefetchableSupport = 17"
| "interface_index IProcessContextRequirements = 18"
| "interface_index IProgramListData = 19"
| "interface_index IUnitData = 20"
| "interface_index IUnitInfo = 21"
| "interface_index IXmlRepresentationController = 22"

definition sample_iid :: "interface \<Rightarrow> tuid" where
  "sample_iid i = replicate 15 1 @ [of_nat (interface_index i + 1)]"

definition absent :: sub_args where
  "absent = \<lparr>supported = False, static_data = None\<rparr>"

definition present :: sub_args where
  "present = \<lparr>supported = True, static_data = None\<rparr>"

text \<open>A descriptor with every capability absent, and two that mark some present.\<close>

definition empty_args :: "size_t \<Rightarrow> ConstructArgs" where
  "empty_args iid =
     \<lparr>instance_id = iid,
      audio_presentation_latency_args = absent, audio_processor_args = absent,
      automation_state_args = absent, component_args = absent,
      connection_point_args = absent, edit_controller_args = absent,
      edit_controller_2_args = absent, edit_controller_host_editing_args = absent,
      info_listener_args = absent, keyswitch_controller_args = absent,
      midi_learn_args = absent, midi_mapping_args = absent,
      note_expression_controller_args = absent,
      note_expression_physical_ui_mapping_args = absent,
      parameter_function_name_args = absent, plugin_base_args = absent,
      prefetchable_support_args = absent, process_context_requirements_args = absent,
      program_list_data_args = absent, unit_data_args = absent, unit_info_args = absent,
      xml_representation_controller_args = absent\<rparr>"

definition component_only_args :: ConstructArgs where
  "component_only_args =
     (empty_args 7)\<lparr>audio_processor_args := present, component_args := present,
                     plugin_base_args := present\<rparr>"

definition with_controller_args :: ConstructArgs where
  "with_controller_args =
     component_only_args\<lparr>edit_controller_args := present,
                          note_expression_physical_ui_mapping_args := present\<rparr>"

text \<open>A real object that implements every interface, and one that implements none.\<close>

definition full_object :: real_object where
  "full_object = \<lparr>implements = (\<lambda>i. True), metadata = (\<lambda>i. None)\<rparr>"

definition bare_object :: real_object where
  "bare_object = \<lparr>implements = (\<lambda>i. False), metadata = (\<lambda>i. None)\<rparr>"

text \<open>A plugin side that has done nothing yet, and two remote sides.\<close>

definition fresh_plugin_side :: plugin_side where
  "fresh_plugin_side = \<lparr>sent_messages = [], logged = [], proxy_objects = []\<rparr>"

definition refusing_remote :: "Construct \<Rightarrow> Construct_Response" where
  "refusing_remote message = Response_UniversalTResult (UniversalTResult kNoInterface)"

definition constructing_remote :: "Construct \<Rightarrow> Construct_Response" where
  "constructing_remote message = Response_ConstructArgs component_only_args"

text \<open>
  A registry on the connecting side with the channel of instance 7 registered, and the
  same registry while thread 1 is in the middle of a call on that channel.
\<close>

definition sample_sockets :: Vst3Sockets where
  "sample_sockets =
     (new_Vst3Sockets ''/tmp/yabridge'' False)
       \<lparr>audio_processor_sockets :=
          [7 \<mapsto> connect (new_Vst3MessageHandler
                   (audio_processor_endpoint ''/tmp/yabridge'' 7) False)]\<rparr>"

definition sample_sockets_busy :: Vst3Sockets where
  "sample_sockets_busy =
     (new_Vst3Sockets ''/tmp/yabridge'' False)
       \<lparr>audio_processor_sockets :=
          [7 \<mapsto> fst (acquire 1 (connect (new_Vst3MessageHandler
                   (audio_processor_endpoint ''/tmp/yabridge'' 7) False)))]\<rparr>"

definition echo_peer :: "connection \<Rightarrow> nat audio_processor_request \<Rightarrow> nat" where
  "echo_peer socket object = payload object"

section \<open>Capability queries\<close>

text \<open>
  Two identifiers of the SDK are equal on their sixteen bytes only when they name the same
  interface; under that condition \<open>iidEqual\<close> decides which interface was asked for.
\<close>

lemma iidEqual_iff:
  assumes "inj (\<lambda>i. take uid_size (iid i))"
  shows "iidEqual (iid a) (iid b) \<longleftrightarrow> a = b"
  using assms unfolding iidEqual_def by (auto dest: injD)

lemma in_catalogue_iff: "c \<in> set catalogue \<longleftrightarrow> c \<noteq> FUnknown"
  by (cases c) (simp_all add: catalogue_def)

lemma interface_index_inj: "interface_index a = interface_index b \<Longrightarrow> a = b"
  by (cases a; cases b; simp)

lemma sample_iid_inj: "inj (\<lambda>i. take uid_size (sample_iid i))"
proof (rule injI)
  fix a b
  assume "take uid_size (sample_iid a) = take uid_size (sample_iid b)"
  then have "(of_nat (interface_index a + 1) :: 8 word) = of_nat (interface_index b + 1)"
    by (simp add: sample_iid_def uid_size_def)
  then have "interface_index a = interface_index b"
    by (cases a; cases b; simp)
  then show "a = b" by (rule interface_index_inj)
qed

text \<open>
  Claim C1. A proxy constructed from a descriptor answers \<open>queryInterface\<close> for the
  identifier of a capability \<open>c\<close> of the catalogue with \<open>kResultOk\<close> and a non-null
  pointer (to its \<open>c\<close> subobject) exactly when the descriptor marks \<open>c\<close> present, and
  with \<open>kNoInterface\<close> and a null pointer otherwise. The identifiers of distinct
  interfaces are assumed distinct, as they are in the SDK.
\<close>

theorem queryInterface_exactly_present:
  assumes "inj (\<lambda>i. take uid_size (iid i))"
      and "c \<in> set catalogue"
  shows "snd (queryInterface iid (new_Vst3PluginProxy args) (iid c)) =
           (if marked_present args c then (kResultOk, Some c) else (kNoInterface, None))"
proof -
  have ne: "c \<noteq> FUnknown"
    using assms(2) by (simp add: in_catalogue_iff)
  note eq = iidEqual_iff [OF assms(1)]
  show ?thesis
    by (cases c)
       (use ne in \<open>simp_all add: queryInterface_def eq new_Vst3PluginProxy_def
          marked_present_def found_def\<close>)
qed

theorem queryInterface_exactly_present_witness:
  "snd (queryInterface sample_iid (new_Vst3PluginProxy component_only_args) (sample_iid IComponent))
     = (kResultOk, Some IComponent) \<and>
   snd (queryInterface sample_iid (new_Vst3PluginProxy component_only_args) (sample_iid IEditController))
     = (kNoInterface, None)"
  using queryInterface_exactly_present [OF sample_iid_inj, of IComponent component_only_args]
        queryInterface_exactly_present [OF sample_iid_inj, of IEditController component_only_args]
  by (simp add: catalogue_def marked_present_def component_only_args_def empty_args_def
        present_def absent_def)

section \<open>Re-discovery\<close>

text \<open>
  Claim C3. When the updated descriptor carries the proxy's own instance identifier,
  \<open>update_supported_interfaces\<close> succeeds, the proxy's descriptor is the new descriptor
  as a whole, and the \<open>arguments_\<close> of every one of the twenty-two capability bases is
  the corresponding field of the new descriptor: nothing of the old descriptor is left.
\<close>

theorem update_supported_interfaces_replaces_all:
  assumes "instance_id updated = proxy_instance_id this"
  shows "\<exists>this'. update_supported_interfaces this updated = Inr this' \<and>
           arguments this' = updated \<and>
           (\<forall>c \<in> set catalogue. base_arguments c this' = args_of c updated)"
  using assms
  by (simp add: update_supported_interfaces_def proxy_instance_id_def catalogue_def)

theorem update_supported_interfaces_replaces_all_witness:
  "update_supported_interfaces (new_Vst3PluginProxy component_only_args) with_controller_args =
     Inr ((new_Vst3PluginProxy with_controller_args))"
  using update_supported_interfaces_replaces_all
          [of with_controller_args "new_Vst3PluginProxy component_only_args"]
  by (simp add: update_supported_interfaces_def new_Vst3PluginProxy_def with_controller_args_def component_only_args_def empty_args_def)

section \<open>The instance identifier of a proxy\<close>

lemma queryInterface_arguments:
  "arguments (fst (queryInterface iid this iid_arg)) = arguments this"
  by (simp add: queryInterface_def found_def addRef_def)

lemma proxy_step_instance_id:
  "proxy_step iid this c = Inr this' \<Longrightarrow> proxy_instance_id this' = proxy_instance_id this"
  by (cases c)
     (auto simp: proxy_instance_id_def queryInterface_arguments addRef_def
        update_supported_interfaces_def split: if_splits)

lemma proxy_run_instance_id:
  "proxy_run iid this cs = Inr this' \<Longrightarrow> proxy_instance_id this' = proxy_instance_id this"
proof (induction cs arbitrary: this)
  case Nil
  then show ?case by simp
next
  case (Cons c cs)
  then show ?case
    by (auto split: sum.splits dest: proxy_step_instance_id)
qed

lemma sample_run:
  "proxy_run sample_iid (new_Vst3PluginProxy component_only_args)
     [QueryInterface (sample_iid IComponent), UpdateSupportedInterfaces with_controller_args,
      QueryInterface (sample_iid IEditController)]
   = Inr ((new_Vst3PluginProxy with_controller_args)\<lparr>funknownRefCount := 3\<rparr>)"
  by (simp add: queryInterface_def found_def addRef_def iidEqual_iff [OF sample_iid_inj]
        update_supported_interfaces_def new_Vst3PluginProxy_def with_controller_args_def
        component_only_args_def empty_args_def present_def absent_def)

text \<open>
  Claim C8. The instance identifier of a proxy is the one fixed at construction after any
  run of operations on it (capability queries, reference counting, re-discovery);
  \<open>update_supported_interfaces\<close> only goes through when the replacement descriptor
  carries the proxy's instance identifier, leaves the identifier as it was, and fails its
  assertion for a descriptor with another identifier.
\<close>

theorem instance_id_constant:
  "(proxy_run iid (new_Vst3PluginProxy args) calls = Inr this' \<longrightarrow>
      proxy_instance_id this' = instance_id args) \<and>
   (update_supported_interfaces this updated = Inr this'' \<longrightarrow>
      instance_id updated = proxy_instance_id this \<and>
      proxy_instance_id this'' = proxy_instance_id this) \<and>
   (instance_id updated \<noteq> proxy_instance_id this \<longrightarrow>
      update_supported_interfaces this updated = Inl AssertionFailed)"
proof (intro conjI impI)
  assume "proxy_run iid (new_Vst3PluginProxy args) calls = Inr this'"
  then have "proxy_instance_id this' = proxy_instance_id (new_Vst3PluginProxy args)"
    by (rule proxy_run_instance_id)
  then show "proxy_instance_id this' = instance_id args"
    by (simp add: proxy_instance_id_def new_Vst3PluginProxy_def)
next
  assume "update_supported_interfaces this updated = Inr this''"
  then show "instance_id updated = proxy_instance_id this"
    by (auto simp: update_supported_interfaces_def proxy_instance_id_def split: if_splits)
next
  assume "update_supported_interfaces this updated = Inr this''"
  then show "proxy_instance_id this'' = proxy_instance_id this"
    by (auto simp: update_supported_interfaces_def proxy_instance_id_def split: if_splits)
next
  assume "instance_id updated \<noteq> proxy_instance_id this"
  then show "update_supported_interfaces this updated = Inl AssertionFailed"
    by (auto simp: update_supported_interfaces_def proxy_instance_id_def)
qed

theorem instance_id_constant_witness:
  "proxy_run sample_iid (new_Vst3PluginProxy component_only_args)
     [QueryInterface (sample_iid IComponent), UpdateSupportedInterfaces with_controller_args,
      QueryInterface (sample_iid IEditController)]
   = Inr ((new_Vst3PluginProxy with_controller_args)\<lparr>funknownRefCount := 3\<rparr>) \<and>
   proxy_instance_id ((new_Vst3PluginProxy with_controller_args)\<lparr>funknownRefCount := 3\<rparr>) = 7 \<and>
   update_supported_interfaces (new_Vst3PluginProxy component_only_args) (empty_args 8)
     = Inl AssertionFailed"
  using instance_id_constant
          [of sample_iid component_only_args
              "[QueryInterface (sample_iid IComponent),
                UpdateSupportedInterfaces with_controller_args,
                QueryInterface (sample_iid IEditController)]"
              "(new_Vst3PluginProxy with_controller_args)\<lparr>funknownRefCount := 3\<rparr>"
              "new_Vst3PluginProxy component_only_args" "empty_args 8"]
        sample_run
  by (simp add: proxy_instance_id_def new_Vst3PluginProxy_def component_only_args_def
        empty_args_def)


section \<open>Discovery\<close>

text \<open>
  For every capability but one, the descriptor built from a real object marks the
  capability present exactly when the object implements it.
\<close>

lemma ConstructArgs_ctor_probes:
  "c \<in> set catalogue \<Longrightarrow> c \<noteq> INoteExpressionPhysicalUIMapping \<Longrightarrow>
     marked_present (ConstructArgs_ctor dflt object i) c = implements object c"
  by (cases c) (simp_all add: marked_present_def ConstructArgs_ctor_def probe_def catalogue_def)

text \<open>
  Claim C2. The discovery constructor is claimed to probe the real object for all
  twenty-two capabilities. Its initialiser list has twenty-one entries:
  \<open>note_expression_physical_ui_mapping_args\<close> is missing, so that field is the same for
  an object that implements \<open>INoteExpressionPhysicalUIMapping\<close> and for one that does
  not, and with a default-constructed field that says "absent" the descriptor of an
  object that implements the interface does not mark it present.
\<close>

theorem ConstructArgs_ctor_skips_physical_ui_mapping:
  "note_expression_physical_ui_mapping_args (ConstructArgs_ctor dflt full_object 7) =
     note_expression_physical_ui_mapping_args (ConstructArgs_ctor dflt bare_object 7) \<and>
   implements full_object INoteExpressionPhysicalUIMapping \<and>
   \<not> implements bare_object INoteExpressionPhysicalUIMapping \<and>
   \<not> marked_present (ConstructArgs_ctor absent full_object 7) INoteExpressionPhysicalUIMapping"
  by (simp add: ConstructArgs_ctor_def full_object_def bare_object_def marked_present_def
        absent_def)

section \<open>Creating an instance\<close>

lemma iidEqual_take [simp]: "iidEqual (take uid_size a) b = iidEqual a b"
  by (simp add: iidEqual_def)

lemma replicate_15: "replicate 15 x = [x, x, x, x, x, x, x, x, x, x, x, x, x, x, x]"
  by (simp add: numeral_eq_Suc)

lemma sample_iid_last_byte: "(of_nat (interface_index i + 1) :: byte) \<noteq> 0"
  by (cases i) simp_all

lemma sample_iid_strnlen: "strnlen (sample_iid i) uid_size = uid_size"
  using sample_iid_last_byte [of i]
  by (simp add: strnlen_def sample_iid_def uid_size_def replicate_15)

lemma sample_iid_take: "take uid_size (sample_iid i) = sample_iid i"
  by (simp add: sample_iid_def uid_size_def)

lemma sample_createInstance_refused:
  "createInstance sample_iid refusing_remote fresh_plugin_side
      (Some (sample_iid FUnknown)) (Some (sample_iid IComponent)) (Some nullptr)
     = (kNoInterface, Some nullptr,
        fresh_plugin_side\<lparr>sent_messages :=
          [\<lparr>cid = sample_iid FUnknown, requested_interface = Interface_IComponent\<rparr>]\<rparr>)"
  by (simp add: createInstance_def sample_iid_strnlen sample_iid_take
        iidEqual_iff [OF sample_iid_inj] construct_and_visit_def
        send_mutually_recursive_message_def refusing_remote_def fresh_plugin_side_def)

lemma sample_createInstance_constructed:
  "createInstance sample_iid constructing_remote fresh_plugin_side
      (Some (sample_iid FUnknown)) (Some (sample_iid IEditController)) (Some nullptr)
     = (kResultOk, Some (Ptr 0 IEditController),
        fresh_plugin_side\<lparr>sent_messages :=
          [\<lparr>cid = sample_iid FUnknown, requested_interface = Interface_IEditController\<rparr>],
          proxy_objects := [new_Vst3PluginProxy component_only_args]\<rparr>)"
  by (simp add: createInstance_def sample_iid_strnlen sample_iid_take
        iidEqual_iff [OF sample_iid_inj] construct_and_visit_def
        send_mutually_recursive_message_def constructing_remote_def fresh_plugin_side_def)

lemma sample_requested_interface:
  "requested_interface_of sample_iid (sample_iid IComponent) = Some Interface_IComponent"
  "requested_interface_of sample_iid (sample_iid IEditController) = Some Interface_IEditController"
  by (simp_all add: requested_interface_of_def iidEqual_iff [OF sample_iid_inj])

lemma createInstance_allocation:
  assumes "createInstance iid remote bridge cid_arg iid_arg obj = (result, obj', bridge')"
      and "proxy_objects bridge' \<noteq> proxy_objects bridge"
  shows "\<exists>cid_mem iid_mem requested args.
           cid_arg = Some cid_mem \<and> iid_arg = Some iid_mem \<and>
           requested_interface_of iid iid_mem = Some requested \<and>
           remote \<lparr>cid = take uid_size cid_mem, requested_interface = requested\<rparr>
             = Response_ConstructArgs args \<and>
           result = kResultOk \<and>
           proxy_objects bridge' = proxy_objects bridge @ [new_Vst3PluginProxy args]"
proof (cases cid_arg)
  case None
  with assms show ?thesis by (simp add: createInstance_def)
next
  case cid: (Some cid_mem)
  show ?thesis
  proof (cases iid_arg)
    case None
    with assms cid show ?thesis by (simp add: createInstance_def)
  next
    case iid: (Some iid_mem)
    show ?thesis
    proof (cases obj)
      case None
      with assms cid iid show ?thesis by (simp add: createInstance_def)
    next
      case slot: (Some obj_slot)
      show ?thesis
      proof (cases "requested_interface_of iid iid_mem")
        case None
        with assms cid iid slot show ?thesis
          by (auto simp: createInstance_def requested_interface_of_def split: if_splits)
      next
        case req: (Some requested)
        let ?m = "\<lparr>cid = take uid_size cid_mem, requested_interface = requested\<rparr>"
        show ?thesis
        proof (cases "remote ?m")
          case (Response_UniversalTResult code)
          with assms cid iid slot req show ?thesis
            by (cases requested)
               (auto simp: createInstance_def requested_interface_of_def construct_and_visit_def
                  send_mutually_recursive_message_def Let_def split: if_splits)
        next
          case (Response_ConstructArgs args)
          with assms cid iid slot req have
            "result = kResultOk \<and>
             proxy_objects bridge' = proxy_objects bridge @ [new_Vst3PluginProxy args]"
            by (cases requested)
               (auto simp: createInstance_def requested_interface_of_def construct_and_visit_def
                  send_mutually_recursive_message_def Let_def split: if_splits)
          with cid iid req Response_ConstructArgs show ?thesis by blast
        qed
      qed
    qed
  qed
qed

text \<open>
  Claim C6. For arguments that pass the checks and ask for \<open>IComponent\<close> or
  \<open>IEditController\<close>, \<open>createInstance\<close> sends one \<open>Construct\<close> message with the caller's
  class id and the requested interface. If the response is the status variant, the
  result is exactly that status, no proxy object is allocated and \<open>*obj\<close> is left as it
  was; if it is the descriptor variant, the result is \<open>kResultOk\<close>, one proxy built from
  the descriptor is allocated and \<open>*obj\<close> points at it, cast to the interface the caller
  asked for. For any arguments whatsoever, a proxy is allocated only when the response
  to the caller's request was the descriptor variant.
\<close>

theorem createInstance_construct_result:
  "(uid_size \<le> strnlen iid_mem uid_size \<and>
    requested_interface_of iid iid_mem = Some requested \<and>
    message = \<lparr>cid = take uid_size cid_mem, requested_interface = requested\<rparr> \<and>
    createInstance iid remote bridge (Some cid_mem) (Some iid_mem) (Some obj_slot)
      = (result, obj', bridge') \<longrightarrow>
      sent_messages bridge' = sent_messages bridge @ [message] \<and>
      (\<forall>code. remote message = Response_UniversalTResult code \<longrightarrow>
         result = to_native code \<and> proxy_objects bridge' = proxy_objects bridge \<and>
         obj' = Some obj_slot) \<and>
      (\<forall>args. remote message = Response_ConstructArgs args \<longrightarrow>
         result = kResultOk \<and>
         proxy_objects bridge' = proxy_objects bridge @ [new_Vst3PluginProxy args] \<and>
         obj' = Some (Ptr (length (proxy_objects bridge)) (interface_of requested)))) \<and>
   (createInstance iid remote bridge cid_arg iid_arg obj = (result2, obj2, bridge2) \<and>
    proxy_objects bridge2 \<noteq> proxy_objects bridge \<longrightarrow>
      (\<exists>cid_mem2 iid_mem2 requested2 args.
         cid_arg = Some cid_mem2 \<and> iid_arg = Some iid_mem2 \<and>
         requested_interface_of iid iid_mem2 = Some requested2 \<and>
         remote \<lparr>cid = take uid_size cid_mem2, requested_interface = requested2\<rparr>
           = Response_ConstructArgs args \<and>
         result2 = kResultOk \<and>
         proxy_objects bridge2 = proxy_objects bridge @ [new_Vst3PluginProxy args]))"
proof (intro conjI impI)
  assume a: "uid_size \<le> strnlen iid_mem uid_size \<and>
    requested_interface_of iid iid_mem = Some requested \<and>
    message = \<lparr>cid = take uid_size cid_mem, requested_interface = requested\<rparr> \<and>
    createInstance iid remote bridge (Some cid_mem) (Some iid_mem) (Some obj_slot)
      = (result, obj', bridge')"
  then show "sent_messages bridge' = sent_messages bridge @ [message]"
    by (cases "remote message"; cases requested)
       (auto simp: createInstance_def requested_interface_of_def construct_and_visit_def
          send_mutually_recursive_message_def Let_def split: if_splits)
  from a show "\<forall>code. remote message = Response_UniversalTResult code \<longrightarrow>
         result = to_native code \<and> proxy_objects bridge' = proxy_objects bridge \<and>
         obj' = Some obj_slot"
    by (cases "remote message"; cases requested)
       (auto simp: createInstance_def requested_interface_of_def construct_and_visit_def
          send_mutually_recursive_message_def Let_def split: if_splits)
  from a show "\<forall>args. remote message = Response_ConstructArgs args \<longrightarrow>
         result = kResultOk \<and>
         proxy_objects bridge' = proxy_objects bridge @ [new_Vst3PluginProxy args] \<and>
         obj' = Some (Ptr (length (proxy_objects bridge)) (interface_of requested))"
    by (cases "remote message"; cases requested)
       (auto simp: createInstance_def requested_interface_of_def construct_and_visit_def
          send_mutually_recursive_message_def Let_def split: if_splits)
next
  assume "createInstance iid remote bridge cid_arg iid_arg obj = (result2, obj2, bridge2) \<and>
    proxy_objects bridge2 \<noteq> proxy_objects bridge"
  then show "\<exists>cid_mem2 iid_mem2 requested2 args.
         cid_arg = Some cid_mem2 \<and> iid_arg = Some iid_mem2 \<and>
         requested_interface_of iid iid_mem2 = Some requested2 \<and>
         remote \<lparr>cid = take uid_size cid_mem2, requested_interface = requested2\<rparr>
           = Response_ConstructArgs args \<and>
         result2 = kResultOk \<and>
         proxy_objects bridge2 = proxy_objects bridge @ [new_Vst3PluginProxy args]"
    using createInstance_allocation by blast
qed

theorem createInstance_construct_result_witness:
  "uid_size \<le> strnlen (sample_iid IComponent) uid_size \<and>
   requested_interface_of sample_iid (sample_iid IComponent) = Some Interface_IComponent \<and>
   refusing_remote \<lparr>cid = sample_iid FUnknown, requested_interface = Interface_IComponent\<rparr>
     = Response_UniversalTResult (UniversalTResult kNoInterface) \<and>
   createInstance sample_iid refusing_remote fresh_plugin_side
      (Some (sample_iid FUnknown)) (Some (sample_iid IComponent)) (Some nullptr)
     = (kNoInterface, Some nullptr,
        fresh_plugin_side\<lparr>sent_messages :=
          [\<lparr>cid = sample_iid FUnknown, requested_interface = Interface_IComponent\<rparr>]\<rparr>) \<and>
   kNoInterface = to_native (UniversalTResult kNoInterface) \<and>
   requested_interface_of sample_iid (sample_iid IEditController) = Some Interface_IEditController \<and>
   constructing_remote \<lparr>cid = sample_iid FUnknown, requested_interface = Interface_IEditController\<rparr>
     = Response_ConstructArgs component_only_args \<and>
   createInstance sample_iid constructing_remote fresh_plugin_side
      (Some (sample_iid FUnknown)) (Some (sample_iid IEditController)) (Some nullptr)
     = (kResultOk, Some (Ptr 0 IEditController),
        fresh_plugin_side\<lparr>sent_messages :=
          [\<lparr>cid = sample_iid FUnknown, requested_interface = Interface_IEditController\<rparr>],
          proxy_objects := [new_Vst3PluginProxy component_only_args]\<rparr>) \<and>
   proxy_objects (fresh_plugin_side\<lparr>sent_messages :=
          [\<lparr>cid = sample_iid FUnknown, requested_interface = Interface_IEditController\<rparr>],
          proxy_objects := [new_Vst3PluginProxy component_only_args]\<rparr>)
     \<noteq> proxy_objects fresh_plugin_side"
  using createInstance_construct_result
          [of "sample_iid IComponent" sample_iid Interface_IComponent
              "\<lparr>cid = sample_iid FUnknown, requested_interface = Interface_IComponent\<rparr>"
              "sample_iid FUnknown" refusing_remote fresh_plugin_side nullptr
              kNoInterface "Some nullptr"
              "fresh_plugin_side\<lparr>sent_messages :=
                 [\<lparr>cid = sample_iid FUnknown, requested_interface = Interface_IComponent\<rparr>]\<rparr>"]
        createInstance_construct_result
          [of "sample_iid IEditController" sample_iid Interface_IEditController
              "\<lparr>cid = sample_iid FUnknown, requested_interface = Interface_IEditController\<rparr>"
              "sample_iid FUnknown" constructing_remote fresh_plugin_side nullptr
              kResultOk "Some (Ptr 0 IEditController)"
              "fresh_plugin_side\<lparr>sent_messages :=
                 [\<lparr>cid = sample_iid FUnknown, requested_interface = Interface_IEditController\<rparr>],
                 proxy_objects := [new_Vst3PluginProxy component_only_args]\<rparr>"
              "Some (sample_iid FUnknown)" "Some (sample_iid IEditController)" "Some nullptr"
              kResultOk "Some (Ptr 0 IEditController)"
              "fresh_plugin_side\<lparr>sent_messages :=
                 [\<lparr>cid = sample_iid FUnknown, requested_interface = Interface_IEditController\<rparr>],
                 proxy_objects := [new_Vst3PluginProxy component_only_args]\<rparr>"]
        sample_createInstance_refused sample_createInstance_constructed
  by (simp add: sample_requested_interface sample_iid_strnlen sample_iid_take
        refusing_remote_def constructing_remote_def fresh_plugin_side_def)

text \<open>
  Claim C9. \<open>createInstance\<close> checks its arguments first: with a null \<open>cid\<close>, \<open>_iid\<close>
  or \<open>obj\<close>, or an \<open>_iid\<close> with a zero byte among its first sixteen, it returns
  \<open>kInvalidArgument\<close> and changes nothing; with valid arguments that ask for an
  interface other than \<open>IComponent\<close> and \<open>IEditController\<close> it stores a null pointer in
  \<open>*obj\<close> and returns \<open>kNotImplemented\<close>. No \<open>Construct\<close> message is sent in either
  case.
\<close>

theorem createInstance_validates_first:
  "(cid_arg = None \<or> iid_arg = None \<or> obj = None \<or>
    (\<exists>iid_mem. iid_arg = Some iid_mem \<and> strnlen iid_mem uid_size < uid_size) \<longrightarrow>
      createInstance iid remote bridge cid_arg iid_arg obj = (kInvalidArgument, obj, bridge)) \<and>
   (cid_arg = Some cid_mem \<and> iid_arg = Some iid_mem \<and> obj = Some obj_slot \<and>
    uid_size \<le> strnlen iid_mem uid_size \<and>
    \<not> iidEqual iid_mem (iid IComponent) \<and> \<not> iidEqual iid_mem (iid IEditController) \<longrightarrow>
      (\<exists>bridge'. createInstance iid remote bridge cid_arg iid_arg obj
                   = (kNotImplemented, Some nullptr, bridge') \<and>
                 sent_messages bridge' = sent_messages bridge \<and>
                 proxy_objects bridge' = proxy_objects bridge))"
  by (auto simp: createInstance_def split: option.splits)

theorem createInstance_validates_first_witness:
  "createInstance sample_iid constructing_remote fresh_plugin_side
      None (Some (sample_iid IComponent)) (Some nullptr)
     = (kInvalidArgument, Some nullptr, fresh_plugin_side) \<and>
   createInstance sample_iid constructing_remote fresh_plugin_side
      (Some (sample_iid FUnknown)) (Some [1, 2, 3, 0]) (Some nullptr)
     = (kInvalidArgument, Some nullptr, fresh_plugin_side) \<and>
   (\<exists>bridge'. createInstance sample_iid constructing_remote fresh_plugin_side
      (Some (sample_iid FUnknown)) (Some (sample_iid IAudioProcessor)) (Some (Ptr 5 IComponent))
     = (kNotImplemented, Some nullptr, bridge') \<and> sent_messages bridge' = [])"
  using createInstance_validates_first
          [of None "Some (sample_iid IComponent)" "Some nullptr" sample_iid constructing_remote
              fresh_plugin_side]
        createInstance_validates_first
          [of "Some (sample_iid FUnknown)" "Some [1, 2, 3, 0]" "Some nullptr" sample_iid
              constructing_remote fresh_plugin_side]
        createInstance_validates_first
          [of "Some (sample_iid FUnknown)" "Some (sample_iid IAudioProcessor)"
              "Some (Ptr 5 IComponent)" sample_iid constructing_remote fresh_plugin_side
              "sample_iid FUnknown" "sample_iid IAudioProcessor" "Ptr 5 IComponent"]
  by (auto simp: strnlen_def uid_size_def sample_iid_strnlen [unfolded uid_size_def strnlen_def]
        iidEqual_iff [OF sample_iid_inj] fresh_plugin_side_def)

section \<open>The per-instance channels of the registry\<close>

lemma sample_handler_live:
  "audio_processor_sockets sample_sockets 7 =
     Some (connect (new_Vst3MessageHandler (audio_processor_endpoint ''/tmp/yabridge'' 7) False))"
  by (simp add: sample_sockets_def)

lemma sample_handler_endpoint: "endpoint (connect (new_Vst3MessageHandler ep l)) = ep"
  by (simp add: connect_def new_Vst3MessageHandler_def)

lemma sample_closed_sockets: "closed_sockets sample_sockets = []"
  by (simp add: sample_sockets_def new_Vst3Sockets_def)

lemma sample_send_unregistered:
  "send_audio_processor_message t (new_Vst3Sockets ''/tmp/yabridge'' False) echo_peer
      \<lparr>request_instance_id = 7, payload = 42\<rparr> = Inl OutOfRange"
  by (simp add: send_audio_processor_message_def receive_audio_processor_message_into_def
        new_Vst3Sockets_def)

lemma sample_remove:
  "remove_audio_processor sample_sockets 7 =
     (True, sample_sockets\<lparr>audio_processor_sockets := Map.empty,
              closed_sockets := [audio_processor_endpoint ''/tmp/yabridge'' 7]\<rparr>)"
  by (simp add: remove_audio_processor_def sample_sockets_def new_Vst3Sockets_def Let_def
        connect_def new_Vst3MessageHandler_def)

lemma sample_send_removed:
  "send_audio_processor_message t (snd (remove_audio_processor sample_sockets 7)) echo_peer
      \<lparr>request_instance_id = 7, payload = 42\<rparr> = Inl OutOfRange"
  by (simp add: sample_remove send_audio_processor_message_def
        receive_audio_processor_message_into_def)

lemma sample_receive_into:
  "receive_into t (connect (new_Vst3MessageHandler ep False)) echo_peer
      \<lparr>request_instance_id = 7, payload = 42\<rparr>
     = Inr (connect (new_Vst3MessageHandler ep False), Primary, 42)"
  by (simp add: receive_into_def send_def acquire_def release_def connect_def
        new_Vst3MessageHandler_def echo_peer_def)

lemma sample_send_registered:
  "send_audio_processor_message t sample_sockets echo_peer
      \<lparr>request_instance_id = 7, payload = 42\<rparr> = Inr (sample_sockets, Primary, 42)"
  by (simp add: send_audio_processor_message_def receive_audio_processor_message_into_def
        sample_handler_live sample_receive_into)
     (simp add: sample_sockets_def)

lemma sample_busy_handler:
  "audio_processor_sockets sample_sockets_busy 7 =
     Some ((connect (new_Vst3MessageHandler (audio_processor_endpoint ''/tmp/yabridge'' 7) False))
             \<lparr>primary_owner := Some 1\<rparr>)"
  by (simp add: sample_sockets_busy_def acquire_def connect_def new_Vst3MessageHandler_def)

lemma busy_receive_into:
  "receive_into t ((connect (new_Vst3MessageHandler ep False))\<lparr>primary_owner := Some u\<rparr>) echo_peer
      \<lparr>request_instance_id = 7, payload = 42\<rparr>
     = Inr ((connect (new_Vst3MessageHandler ep False))
              \<lparr>primary_owner := Some u, ad_hoc_connections := 1\<rparr>, Secondary 0, 42)"
  by (simp add: receive_into_def send_def acquire_def release_def connect_def
        new_Vst3MessageHandler_def echo_peer_def)

lemma sample_listen:
  "add_audio_processor_and_listen t (new_Vst3Sockets ''/tmp/yabridge'' True) 7 =
     Inr ((new_Vst3Sockets ''/tmp/yabridge'' True)
            \<lparr>audio_processor_sockets :=
               [7 \<mapsto> receive_messages_enter t (connect (new_Vst3MessageHandler
                         (audio_processor_endpoint ''/tmp/yabridge'' 7) True))]\<rparr>)"
  by (simp add: add_audio_processor_and_listen_def try_emplace_def new_Vst3Sockets_def)

lemma remove_audio_processor_absent:
  "audio_processor_sockets this iid = None \<Longrightarrow> remove_audio_processor this iid = (False, this)"
  by (simp add: remove_audio_processor_def)

text \<open>
  Claim C7. \<open>remove_audio_processor(id)\<close> returns true exactly when the map held a
  channel for \<open>id\<close>. In that case the socket of that channel is closed (its endpoint is
  the one more entry among the closed sockets) and the entry is erased; otherwise
  nothing is closed. Either way the map afterwards is the old one without \<open>id\<close>, so it
  has no entry for \<open>id\<close>, and nothing else of the registry changes.
\<close>

theorem remove_audio_processor_result:
  "fst (remove_audio_processor this iid) = (iid \<in> dom (audio_processor_sockets this)) \<and>
   snd (remove_audio_processor this iid) =
     this\<lparr>audio_processor_sockets := (audio_processor_sockets this)(iid := None),
          closed_sockets := closed_sockets this @
            (case audio_processor_sockets this iid of
               None \<Rightarrow> []
             | Some h \<Rightarrow> [endpoint h])\<rparr> \<and>
   iid \<notin> dom (audio_processor_sockets (snd (remove_audio_processor this iid)))"
proof (cases "audio_processor_sockets this iid")
  case None
  then have "(audio_processor_sockets this)(iid := None) = audio_processor_sockets this"
    by (simp add: fun_upd_idem)
  with None show ?thesis
    by (simp add: remove_audio_processor_def domIff)
next
  case (Some h)
  then show ?thesis
    by (simp add: remove_audio_processor_def Let_def domIff)
qed

theorem remove_audio_processor_result_witness:
  "fst (remove_audio_processor sample_sockets 7) \<and>
   audio_processor_sockets (snd (remove_audio_processor sample_sockets 7)) 7 = None \<and>
   closed_sockets sample_sockets = [] \<and>
   closed_sockets (snd (remove_audio_processor sample_sockets 7))
     = [audio_processor_endpoint ''/tmp/yabridge'' 7] \<and>
   \<not> fst (remove_audio_processor (snd (remove_audio_processor sample_sockets 7)) 7) \<and>
   closed_sockets (snd (remove_audio_processor (snd (remove_audio_processor sample_sockets 7)) 7))
     = [audio_processor_endpoint ''/tmp/yabridge'' 7]"
proof -
  let ?removed = "snd (remove_audio_processor sample_sockets 7)"
  from remove_audio_processor_result [of sample_sockets 7]
  have first: "fst (remove_audio_processor sample_sockets 7) =
                 (7 \<in> dom (audio_processor_sockets sample_sockets))"
    and gone: "7 \<notin> dom (audio_processor_sockets ?removed)"
    by blast+
  from remove_audio_processor_result [of ?removed 7]
  have second: "fst (remove_audio_processor ?removed 7) =
                  (7 \<in> dom (audio_processor_sockets ?removed))"
    by blast
  have a: "fst (remove_audio_processor sample_sockets 7)"
    unfolding first by (simp add: sample_handler_live domIff)
  have b: "audio_processor_sockets ?removed 7 = None"
    using gone by (simp add: domIff)
  have c: "\<not> fst (remove_audio_processor ?removed 7)"
    unfolding second using gone by simp
  have d: "closed_sockets ?removed = [audio_processor_endpoint ''/tmp/yabridge'' 7]"
    by (simp add: sample_remove)
  have e: "closed_sockets (snd (remove_audio_processor ?removed 7))
             = [audio_processor_endpoint ''/tmp/yabridge'' 7]"
    by (simp add: remove_audio_processor_absent [OF b] d)
  from a b c d e sample_closed_sockets show ?thesis by blast
qed

text \<open>
  Claim C10. A message for an instance whose channel is not in the map (never added, or
  removed) is not sent: the lookup fails with \<open>std::out_of_range\<close>, both in
  \<open>receive_audio_processor_message_into\<close> and in \<open>send_audio_processor_message\<close>, and a
  call that does go through leaves the set of registered instances as it was, so no
  channel is ever created by sending.
\<close>

theorem fast_channel_send_requires_registration:
  "(iid \<notin> dom (audio_processor_sockets this) \<longrightarrow>
      receive_audio_processor_message_into t this peer object iid = Inl OutOfRange) \<and>
   (request_instance_id request \<notin> dom (audio_processor_sockets this) \<longrightarrow>
      send_audio_processor_message t this peer' request = Inl OutOfRange) \<and>
   (\<forall>this' socket response.
      receive_audio_processor_message_into t this peer object iid = Inr (this', socket, response)
        \<longrightarrow> dom (audio_processor_sockets this') = dom (audio_processor_sockets this))"
  by (auto simp: receive_audio_processor_message_into_def send_audio_processor_message_def
        split: option.splits prod.splits sum.splits)

theorem fast_channel_send_requires_registration_witness:
  "send_audio_processor_message 1 (new_Vst3Sockets ''/tmp/yabridge'' False) echo_peer
      \<lparr>request_instance_id = 7, payload = 42\<rparr> = Inl OutOfRange \<and>
   fst (remove_audio_processor sample_sockets 7) \<and>
   send_audio_processor_message 1 (snd (remove_audio_processor sample_sockets 7)) echo_peer
      \<lparr>request_instance_id = 7, payload = 42\<rparr> = Inl OutOfRange \<and>
   (\<exists>this'. send_audio_processor_message 1 sample_sockets echo_peer
      \<lparr>request_instance_id = 7, payload = 42\<rparr> = Inr (this', Primary, 42) \<and>
      dom (audio_processor_sockets this') = {7})"
proof -
  let ?request = "\<lparr>request_instance_id = 7, payload = 42\<rparr> :: nat audio_processor_request"
  let ?removed = "snd (remove_audio_processor sample_sockets 7)"
  have never_added:
    "request_instance_id ?request \<notin> dom (audio_processor_sockets (new_Vst3Sockets ''/tmp/yabridge'' False))"
    by (simp add: new_Vst3Sockets_def)
  have removed:
    "request_instance_id ?request \<notin> dom (audio_processor_sockets ?removed)"
    by (simp add: sample_remove)
  from never_added
    fast_channel_send_requires_registration
      [of 7 "new_Vst3Sockets ''/tmp/yabridge'' False" 1 echo_peer ?request ?request echo_peer]
  have a: "send_audio_processor_message 1 (new_Vst3Sockets ''/tmp/yabridge'' False) echo_peer
             ?request = Inl OutOfRange"
    by blast
  from removed
    fast_channel_send_requires_registration
      [of 7 ?removed 1 echo_peer ?request ?request echo_peer]
  have b: "send_audio_processor_message 1 ?removed echo_peer ?request = Inl OutOfRange"
    by blast
  have c: "fst (remove_audio_processor sample_sockets 7)"
    by (simp add: sample_remove)
  have d: "send_audio_processor_message 1 sample_sockets echo_peer ?request
             = Inr (sample_sockets, Primary, 42)"
    by (rule sample_send_registered)
  have e: "dom (audio_processor_sockets sample_sockets) = {7}"
    by (simp add: sample_sockets_def)
  from a b c d e show ?thesis by blast
qed

section \<open>Choosing a connection\<close>



text \<open>
  Claim C5. A per-instance channel is claimed to have exactly one connection and to
  spawn neither ad-hoc connections nor threads. The map holds the same
  \<open>Vst3MessageHandler\<close> as the general-purpose channels: while thread 1 is in a call on
  the channel of instance 7, a call of thread 2 on the same channel runs on a new ad-hoc
  connection, and listening on a per-instance channel starts the task that accepts
  additional connections.
\<close>

theorem fast_channel_spawns_ad_hoc_connection:
  "map_option ad_hoc_connections (audio_processor_sockets sample_sockets_busy 7) = Some 0 \<and>
   (\<exists>this'. send_audio_processor_message 2 sample_sockets_busy echo_peer
               \<lparr>request_instance_id = 7, payload = 42\<rparr> = Inr (this', Secondary 0, 42) \<and>
             map_option ad_hoc_connections (audio_processor_sockets this' 7) = Some 1) \<and>
   (\<exists>this'. add_audio_processor_and_listen 1 (new_Vst3Sockets ''/tmp/yabridge'' True) 7 = Inr this' \<and>
             map_option acceptor_running (audio_processor_sockets this' 7) = Some True)"
proof (intro conjI)
  show "map_option ad_hoc_connections (audio_processor_sockets sample_sockets_busy 7) = Some 0"
    by (simp add: sample_busy_handler connect_def new_Vst3MessageHandler_def)
  show "\<exists>this'. send_audio_processor_message 2 sample_sockets_busy echo_peer
               \<lparr>request_instance_id = 7, payload = 42\<rparr> = Inr (this', Secondary 0, 42) \<and>
             map_option ad_hoc_connections (audio_processor_sockets this' 7) = Some 1"
    by (simp add: send_audio_processor_message_def receive_audio_processor_message_into_def
          sample_busy_handler busy_receive_into)
  show "\<exists>this'. add_audio_processor_and_listen 1 (new_Vst3Sockets ''/tmp/yabridge'' True) 7 = Inr this' \<and>
             map_option acceptor_running (audio_processor_sockets this' 7) = Some True"
    by (simp add: sample_listen receive_messages_enter_def)
qed

end
